theory Spec2Isabelle
  imports Main
begin

section \<open>JavaScript values as the handlers see them\<close>

text \<open>
  The backend (\<^verbatim>\<open>server.js\<close>) receives the bodies of the external ML service through
  axios, which parses them as JSON. A body is therefore a JSON value. Strings are
  sequences of bytes (UTF-8); numbers are the integers, printed in decimal.
  A property that is missing reads as \<^verbatim>\<open>undefined\<close>, which is \<open>None\<close> here.
\<close>

datatype json =
    JNull
  | JBool bool
  | JNum int
  | JStr string
  | JArr "json list"
  | JObj "(string \<times> json) list"

text \<open>What a \<^verbatim>\<open>throw\<close> carries. Both kinds are read through \<^verbatim>\<open>error.message\<close>.\<close>

datatype js_error = Error string | TypeError string

fun message :: "js_error \<Rightarrow> string" where
  "message (Error m) = m"
| "message (TypeError m) = m"

text \<open>
  Truthiness, as \<^verbatim>\<open>if (v)\<close>, \<^verbatim>\<open>!v\<close>, \<^verbatim>\<open>a && b\<close> and \<^verbatim>\<open>a || b\<close> test it:
  \<^verbatim>\<open>null\<close>, \<^verbatim>\<open>false\<close>, \<^verbatim>\<open>0\<close> and the empty string are falsy, every array and
  object is truthy; \<^verbatim>\<open>undefined\<close> is falsy.
\<close>

fun truthy :: "json \<Rightarrow> bool" where
  "truthy JNull = False"
| "truthy (JBool b) = b"
| "truthy (JNum n) = (n \<noteq> 0)"
| "truthy (JStr s) = (s \<noteq> [])"
| "truthy (JArr xs) = True"
| "truthy (JObj kvs) = True"

fun truthy_opt :: "json option \<Rightarrow> bool" where
  "truthy_opt None = False"
| "truthy_opt (Some v) = truthy v"

text \<open>
  Reading a property \<^verbatim>\<open>v.k\<close> for one of the names the handlers read
  (\<^verbatim>\<open>answer\<close>, \<^verbatim>\<open>response\<close>, \<^verbatim>\<open>pdf_id\<close>, \<^verbatim>\<open>error\<close>): an object gives its member
  or \<^verbatim>\<open>undefined\<close>; a string, number, boolean or array has no such property;
  \<^verbatim>\<open>null\<close> throws a TypeError.
\<close>

fun js_prop :: "json \<Rightarrow> string \<Rightarrow> json option" where
  "js_prop (JObj kvs) k = map_of kvs k"
| "js_prop v k = None"

definition get_prop :: "json \<Rightarrow> string \<Rightarrow> js_error + json option" where
  "get_prop v k =
     (if v = JNull
      then Inl (TypeError (''Cannot read properties of null (reading '' @ [CHR 0x27] @ k @ [CHR 0x27] @ '')''))
      else Inr (js_prop v k))"

text \<open>Optional chaining \<^verbatim>\<open>v?.k\<close>: \<^verbatim>\<open>undefined\<close> and \<^verbatim>\<open>null\<close> give \<^verbatim>\<open>undefined\<close>.\<close>

fun opt_chain :: "json option \<Rightarrow> string \<Rightarrow> json option" where
  "opt_chain None k = None"
| "opt_chain (Some v) k = js_prop v k"

subsection \<open>Strings\<close>

fun join_with :: "string \<Rightarrow> string list \<Rightarrow> string" where
  "join_with sep [] = []"
| "join_with sep [x] = x"
| "join_with sep (x # y # ys) = x @ sep @ join_with sep (y # ys)"

definition digit_char :: "nat \<Rightarrow> char" where
  "digit_char d = char_of (48 + d)"

function show_nat :: "nat \<Rightarrow> string" where
  "show_nat n = (if n < 10 then [digit_char n] else show_nat (n div 10) @ [digit_char (n mod 10)])"
  by pat_completeness auto
termination
  by (relation "measure id") auto

declare show_nat.simps [simp del]

definition show_int :: "int \<Rightarrow> string" where
  "show_int i = (if i < 0 then CHR ''-'' # show_nat (nat (- i)) else show_nat (nat i))"

definition hex_char :: "nat \<Rightarrow> char" where
  "hex_char d = (if d < 10 then char_of (48 + d) else char_of (87 + d))"

text \<open>
  \<^verbatim>\<open>JSON.stringify\<close> on a string: the quote and the backslash are escaped, the
  control characters get their short escape or \<^verbatim>\<open>\u00xx\<close>, every other byte stands
  for itself.
\<close>

definition escape_char :: "char \<Rightarrow> string" where
  "escape_char c =
     (if c = CHR 0x22 then [CHR 0x5C, CHR 0x22]
      else if c = CHR 0x5C then [CHR 0x5C, CHR 0x5C]
      else if c = CHR 0x08 then [CHR 0x5C, CHR ''b'']
      else if c = CHR 0x0C then [CHR 0x5C, CHR ''f'']
      else if c = CHR 0x0A then [CHR 0x5C, CHR ''n'']
      else if c = CHR 0x0D then [CHR 0x5C, CHR ''r'']
      else if c = CHR 0x09 then [CHR 0x5C, CHR ''t'']
      else if of_char c < (32 :: nat)
        then [CHR 0x5C, CHR ''u'', CHR ''0'', CHR ''0'',
              hex_char (of_char c div 16), hex_char (of_char c mod 16)]
      else [c])"

definition quote :: "string \<Rightarrow> string" where
  "quote s = [CHR 0x22] @ concat (map escape_char s) @ [CHR 0x22]"

text \<open>\<^verbatim>\<open>JSON.stringify(v)\<close> with no indentation, members in the object's own order.\<close>

fun JSON_stringify :: "json \<Rightarrow> string" where
  "JSON_stringify JNull = ''null''"
| "JSON_stringify (JBool b) = (if b then ''true'' else ''false'')"
| "JSON_stringify (JNum n) = show_int n"
| "JSON_stringify (JStr s) = quote s"
| "JSON_stringify (JArr xs) = ''['' @ join_with '','' (map JSON_stringify xs) @ '']''"
| "JSON_stringify (JObj kvs) =
     ''{'' @ join_with '','' (map (\<lambda>(k, v). quote k @ '':'' @ JSON_stringify v) kvs) @ ''}''"

text \<open>
  The string a value becomes inside a template literal or a string concatenation
  (\<^verbatim>\<open>`${v}`\<close>): a string is itself, an array joins its elements with commas
  (\<^verbatim>\<open>null\<close> elements as the empty string), an object is \<^verbatim>\<open>[object Object]\<close>.
\<close>

fun to_js_string :: "json \<Rightarrow> string" where
  "to_js_string JNull = ''null''"
| "to_js_string (JBool b) = (if b then ''true'' else ''false'')"
| "to_js_string (JNum n) = show_int n"
| "to_js_string (JStr s) = s"
| "to_js_string (JArr xs) =
     join_with '','' (map (\<lambda>x. if x = JNull then [] else to_js_string x) xs)"
| "to_js_string (JObj kvs) = ''[object Object]''"

fun to_js_string_opt :: "json option \<Rightarrow> string" where
  "to_js_string_opt None = ''undefined''"
| "to_js_string_opt (Some v) = to_js_string v"

text \<open>
  \<^verbatim>\<open>String.prototype.trim\<close>: white space and line terminators are removed at both
  ends. On UTF-8 bytes these are the ASCII ones and the encodings of U+00A0, U+1680,
  U+2000 to U+200A, U+2028, U+2029, U+202F, U+205F, U+3000 and U+FEFF.
\<close>

definition js_spaces :: "string list" where
  "js_spaces =
     [[CHR 0x09], [CHR 0x0A], [CHR 0x0B], [CHR 0x0C], [CHR 0x0D], [CHR 0x20],
      [CHR 0xC2, CHR 0xA0], [CHR 0xE1, CHR 0x9A, CHR 0x80],
      [CHR 0xE2, CHR 0x80, CHR 0x80], [CHR 0xE2, CHR 0x80, CHR 0x81],
      [CHR 0xE2, CHR 0x80, CHR 0x82], [CHR 0xE2, CHR 0x80, CHR 0x83],
      [CHR 0xE2, CHR 0x80, CHR 0x84], [CHR 0xE2, CHR 0x80, CHR 0x85],
      [CHR 0xE2, CHR 0x80, CHR 0x86], [CHR 0xE2, CHR 0x80, CHR 0x87],
      [CHR 0xE2, CHR 0x80, CHR 0x88], [CHR 0xE2, CHR 0x80, CHR 0x89],
      [CHR 0xE2, CHR 0x80, CHR 0x8A], [CHR 0xE2, CHR 0x80, CHR 0xA8],
      [CHR 0xE2, CHR 0x80, CHR 0xA9], [CHR 0xE2, CHR 0x80, CHR 0xAF],
      [CHR 0xE2, CHR 0x81, CHR 0x9F], [CHR 0xE3, CHR 0x80, CHR 0x80],
      [CHR 0xEF, CHR 0xBB, CHR 0xBF]]"

fun starts_with :: "string \<Rightarrow> string \<Rightarrow> bool" where
  "starts_with s [] = True"
| "starts_with [] (p # ps) = False"
| "starts_with (c # cs) (p # ps) = (c = p \<and> starts_with cs ps)"

definition ends_with :: "string \<Rightarrow> string \<Rightarrow> bool" where
  "ends_with s suffix = starts_with (rev s) (rev suffix)"

text \<open>The length of the white space \<open>s\<close> begins with, among the candidates \<open>ws\<close>.\<close>

fun space_at_start :: "string list \<Rightarrow> string \<Rightarrow> nat" where
  "space_at_start [] s = 0"
| "space_at_start (w # ws) s = (if starts_with s w then length w else space_at_start ws s)"

fun trim_start_fuel :: "nat \<Rightarrow> string list \<Rightarrow> string \<Rightarrow> string" where
  "trim_start_fuel 0 ws s = s"
| "trim_start_fuel (Suc n) ws s =
     (if space_at_start ws s = 0 then s
      else trim_start_fuel n ws (drop (space_at_start ws s) s))"

text \<open>
  Each round drops at least one byte, so \<open>length s\<close> rounds are enough: the fuel never
  runs out before the white space does.
\<close>

definition trim_start :: "string \<Rightarrow> string" where
  "trim_start s = trim_start_fuel (length s) js_spaces s"

definition trim_end :: "string \<Rightarrow> string" where
  "trim_end s = rev (trim_start_fuel (length s) (map rev js_spaces) (rev s))"

definition js_trim :: "string \<Rightarrow> string" where
  "js_trim s = trim_end (trim_start s)"

text \<open>
  \<^verbatim>\<open>toLowerCase\<close> on the ASCII letters; other bytes are kept. The handlers only look
  for ASCII words in the result.
\<close>

definition lower_char :: "char \<Rightarrow> char" where
  "lower_char c =
     (if (65 :: nat) \<le> of_char c \<and> of_char c \<le> (90 :: nat)
      then char_of (of_char c + (32 :: nat)) else c)"

definition toLowerCase :: "string \<Rightarrow> string" where
  "toLowerCase s = map lower_char s"

text \<open>\<^verbatim>\<open>s.includes(w)\<close>, which is also what an unanchored regular expression of a
  plain word tests.\<close>

fun str_includes :: "string \<Rightarrow> string \<Rightarrow> bool" where
  "str_includes [] w = (w = [])"
| "str_includes (c # cs) w = (starts_with (c # cs) w \<or> str_includes cs w)"

section \<open>The answer extraction of the query handler\<close>

text \<open>
  \<^verbatim>\<open>server.js\<close>, in the handler of \<^verbatim>\<open>POST /hackrx/query\<close>:
  \<^verbatim>\<open>
    let answerText;
    if (mlResponse.answer && mlResponse.answer.answer) {
      answerText = mlResponse.answer.answer;
    } else if (mlResponse.answer) {
      answerText = mlResponse.answer;
    } else if (mlResponse.response) {
      answerText = mlResponse.response;
    } else {
      answerText = typeof mlResponse === 'string' ? mlResponse : JSON.stringify(mlResponse);
    }
  \<close>
  The first property read throws on \<^verbatim>\<open>null\<close>; after it \<open>mlResponse\<close> is not
  \<^verbatim>\<open>null\<close>, and a truthy \<^verbatim>\<open>mlResponse.answer\<close> is not \<^verbatim>\<open>null\<close> either, so the
  later reads cannot throw.
\<close>

definition whole_response :: "json \<Rightarrow> json" where
  "whole_response mlResponse =
     (case mlResponse of JStr s \<Rightarrow> JStr s | _ \<Rightarrow> JStr (JSON_stringify mlResponse))"

definition extract_answer :: "json \<Rightarrow> js_error + json" where
  "extract_answer mlResponse =
     (case get_prop mlResponse ''answer'' of
        Inl e \<Rightarrow> Inl e
      | Inr a \<Rightarrow>
          if truthy_opt a \<and> truthy_opt (opt_chain a ''answer'')
          then Inr (the (opt_chain a ''answer''))
          else if truthy_opt a then Inr (the a)
          else if truthy_opt (js_prop mlResponse ''response'')
          then Inr (the (js_prop mlResponse ''response''))
          else Inr (whole_response mlResponse))"

section \<open>The session cache\<close>

text \<open>
  \<^verbatim>\<open>const pdfCache = new Map()\<close>. The value stored under a key is the object the
  upload handler builds; \<open>file_info\<close> is the handler's \<^verbatim>\<open>fileInfo\<close>.
\<close>

record file_info =
  fi_filename :: string
  fi_originalName :: string
  fi_mimetype :: string
  fi_size :: nat
  fi_path :: string

record session_record =
  fileInfo :: file_info
  indexedAt :: string
  mlApiResponse :: json
  originalFilename :: string

text \<open>
  A \<^verbatim>\<open>Map\<close> keeps its entries in insertion order and compares keys by
  SameValueZero: strings, numbers, booleans and \<^verbatim>\<open>null\<close> by value, objects and arrays
  by reference. Every object the handlers see was parsed from a body of its own, so an
  object key is equal to no key that is looked up later.
\<close>

type_synonym pdf_cache = "(json \<times> session_record) list"

fun is_primitive :: "json \<Rightarrow> bool" where
  "is_primitive (JArr xs) = False"
| "is_primitive (JObj kvs) = False"
| "is_primitive v = True"

definition same_value_zero :: "json \<Rightarrow> json \<Rightarrow> bool" where
  "same_value_zero a b = (is_primitive a \<and> a = b)"

fun Map_has :: "pdf_cache \<Rightarrow> json \<Rightarrow> bool" where
  "Map_has [] k = False"
| "Map_has ((k', v) # c) k = (same_value_zero k' k \<or> Map_has c k)"

fun Map_get :: "pdf_cache \<Rightarrow> json \<Rightarrow> session_record option" where
  "Map_get [] k = None"
| "Map_get ((k', v) # c) k = (if same_value_zero k' k then Some v else Map_get c k)"

fun Map_set :: "pdf_cache \<Rightarrow> json \<Rightarrow> session_record \<Rightarrow> pdf_cache" where
  "Map_set [] k v = [(k, v)]"
| "Map_set ((k', v') # c) k v =
     (if same_value_zero k' k then (k', v) # c else (k', v') # Map_set c k v)"

section \<open>The server and what surrounds it\<close>

text \<open>
  What an axios call comes back with. \<open>AxiosOk data\<close> is a response with a 2xx status
  and its parsed body. \<open>AxiosErr d m\<close> is a rejection: \<open>d\<close> is
  \<^verbatim>\<open>error.response?.data\<close> (\<open>None\<close> when no response arrived) and \<open>m\<close> is
  \<^verbatim>\<open>error.message\<close>.
\<close>

datatype axios_result = AxiosOk json | AxiosErr "json option" string

text \<open>What a handler does to the outside world, in the order it does it.\<close>

datatype event =
    MlUpload file_info axios_result
  | MlQuery string string axios_result
  | Unlink string bool

record response =
  status :: nat
  body :: json

definition error_body :: "string \<Rightarrow> json" where
  "error_body m = JObj [(''error'', JStr m)]"

text \<open>
  The server's state: the cache and the files present in \<^verbatim>\<open>./uploads\<close>.
\<close>

record server =
  pdfCache :: pdf_cache
  uploads :: "string set"

text \<open>
  What the surroundings decide during one upload request: the suffix multer's
  \<^verbatim>\<open>filename\<close> callback draws from the clock and \<^verbatim>\<open>Math.random\<close>, whether the file
  went over multer's \<^verbatim>\<open>fileSize\<close> limit, what the ML service answers, the clock when
  the record is cached, and whether the operating system refuses to delete the file.
\<close>

record upload_env =
  uniqueSuffix :: string
  over_limit :: bool
  ml_upload :: axios_result
  now :: string
  unlink_fails :: bool

text \<open>
  \<^verbatim>\<open>fs.unlinkSync(path)\<close> throws when the file is not there or cannot be deleted, and
  then leaves the directory as it was. The result says whether it returned.
\<close>

definition unlinkSync :: "bool \<Rightarrow> string \<Rightarrow> string set \<Rightarrow> bool \<times> string set" where
  "unlinkSync refused p d = (if p \<in> d \<and> \<not> refused then (True, d - {p}) else (False, d))"

text \<open>\<^verbatim>\<open>${error.response?.data?.error || error.message}\<close>\<close>

definition failure_text :: "json option \<Rightarrow> string \<Rightarrow> string" where
  "failure_text d m =
     (if truthy_opt (opt_chain d ''error'') then to_js_string (the (opt_chain d ''error'')) else m)"

text \<open>
  \<^verbatim>\<open>
  async function uploadPDFToMLAPI(fileInfo) {
    try {
      if (!fileInfo || !fileInfo.path) {
        throw new Error('File information is required for ML API upload');
      }
      ...
      const response = await axios.post(process.env.ML_API_URL + '/hackrx/upload', formData, ...);
      return response.data;
    } catch (error) {
      throw new Error(`ML API upload failed: ${error.response?.data?.error || error.message}`);
    }
  }
  \<close>
\<close>

definition uploadPDFToMLAPI :: "file_info \<Rightarrow> axios_result \<Rightarrow> (js_error + json) \<times> event list" where
  "uploadPDFToMLAPI info net =
     (if fi_path info = []
      then (Inl (Error (''ML API upload failed: '' @
                        ''File information is required for ML API upload'')), [])
      else (case net of
              AxiosOk d \<Rightarrow> (Inr d, [MlUpload info net])
            | AxiosErr d m \<Rightarrow>
                (Inl (Error (''ML API upload failed: '' @ failure_text d m)), [MlUpload info net])))"

text \<open>
  \<^verbatim>\<open>
  async function queryPDFFromMLAPI(pdf_id, question, cachedPDF) {
    try {
      if (!pdf_id || !question) {
        throw new Error('PDF ID and question are required for ML API query');
      }
      ...
      const response = await axios.post(process.env.ML_API_URL + '/hackrx/query', formData, ...);
      return response.data;
    } catch (error) {
      throw new Error(`ML API query failed: ${error.response?.data?.error || error.message}`);
    }
  }
  \<close>
\<close>

definition queryPDFFromMLAPI ::
    "string \<Rightarrow> string \<Rightarrow> session_record option \<Rightarrow> axios_result \<Rightarrow> (js_error + json) \<times> event list" where
  "queryPDFFromMLAPI pdf_id question cachedPDF net =
     (if pdf_id = [] \<or> question = []
      then (Inl (Error (''ML API query failed: '' @
                        ''PDF ID and question are required for ML API query'')), [])
      else (case net of
              AxiosOk d \<Rightarrow> (Inr d, [MlQuery pdf_id question net])
            | AxiosErr d m \<Rightarrow>
                (Inl (Error (''ML API query failed: '' @ failure_text d m)),
                 [MlQuery pdf_id question net])))"

subsection \<open>multer\<close>

text \<open>
  The file part of a multipart request: the name and the media type (type and subtype)
  its headers declare, and its size. \<open>multer_file\<close> is \<^verbatim>\<open>req.file\<close> once multer has
  stored it.
\<close>

datatype file_part = FilePart (part_filename: string) (part_type: string) (part_size: nat)

record multer_file =
  originalname :: string
  mimetype :: string
  filename :: string
  path :: string
  fsize :: nat

text \<open>
  \<^verbatim>\<open>path.extname\<close> (POSIX): the last component of the path, trailing slashes apart,
  from its last dot on; empty when there is no dot, when the only dot comes first, and
  for \<^verbatim>\<open>..\<close>.
\<close>

definition path_extname :: "string \<Rightarrow> string" where
  "path_extname p =
     (let base = rev (takeWhile (\<lambda>c. c \<noteq> CHR ''/'') (dropWhile (\<lambda>c. c = CHR ''/'') (rev p)));
          ext = rev (takeWhile (\<lambda>c. c \<noteq> CHR ''.'') (rev base))
      in if CHR ''.'' \<notin> set base then []
         else if Suc (length ext) = length base then []
         else if base = ''..'' then []
         else CHR ''.'' # ext)"

text \<open>
  \<^verbatim>\<open>
  fileFilter: (req, file, cb) => {
    const allowedTypes = /jpeg|jpg|png|gif|pdf|txt|doc|docx|xls|xlsx|ppt|pptx/;
    const extname = allowedTypes.test(path.extname(file.originalname).toLowerCase());
    const mimetype = allowedTypes.test(file.mimetype) || file.mimetype === 'text/plain';
    if (mimetype && extname) { return cb(null, true); }
    else { cb(new Error('Invalid file type')); }
  }
  \<close>
\<close>

definition allowedTypes :: "string list" where
  "allowedTypes = [''jpeg'', ''jpg'', ''png'', ''gif'', ''pdf'', ''txt'', ''doc'', ''docx'',
                   ''xls'', ''xlsx'', ''ppt'', ''pptx'']"

definition regex_test :: "string list \<Rightarrow> string \<Rightarrow> bool" where
  "regex_test alternatives s = list_ex (str_includes s) alternatives"

definition fileFilter :: "file_part \<Rightarrow> bool" where
  "fileFilter file =
     (let extname = regex_test allowedTypes (toLowerCase (path_extname (part_filename file)));
          mimetype = (regex_test allowedTypes (part_type file) \<or> part_type file = ''text/plain'')
      in mimetype \<and> extname)"

text \<open>
  multer reads the request with busboy, which reports a file under the last component
  of its declared name (what follows the last slash or backslash, and nothing for
  \<^verbatim>\<open>.\<close> and \<^verbatim>\<open>..\<close>) and under its declared media type in lower case. These
  are \<^verbatim>\<open>file.originalname\<close> and \<^verbatim>\<open>file.mimetype\<close> from the filter on.
\<close>

definition busboy_basename :: "string \<Rightarrow> string" where
  "busboy_basename p =
     (let base = rev (takeWhile (\<lambda>c. c \<noteq> CHR ''/'' \<and> c \<noteq> CHR 0x5C) (rev p))
      in if base = ''..'' \<or> base = ''.'' then [] else base)"

definition busboy_file :: "file_part \<Rightarrow> file_part" where
  "busboy_file part =
     FilePart (busboy_basename (part_filename part)) (toLowerCase (part_type part))
       (part_size part)"

text \<open>
  \<^verbatim>\<open>upload.single('file')\<close> with the disk storage, followed by the error middleware
  for what multer refuses. A part whose name is empty is passed over, so
  \<^verbatim>\<open>req.file\<close> stays \<^verbatim>\<open>undefined\<close>. A file the filter turns down gives status 500
  with \<^verbatim>\<open>Invalid file type\<close>, a file over the size limit gives status 400 with
  \<^verbatim>\<open>File too large\<close> and is not kept. An accepted file is written to
  \<^verbatim>\<open>uploads/file-<suffix><extension>\<close>.
\<close>

definition multer_single ::
    "upload_env \<Rightarrow> file_part option \<Rightarrow> server \<Rightarrow> (response + multer_file option) \<times> server" where
  "multer_single env part s =
     (case part of
        None \<Rightarrow> (Inr None, s)
      | Some sent \<Rightarrow>
          (let file = busboy_file sent
           in if part_filename file = [] then (Inr None, s)
              else if \<not> fileFilter file
              then (Inl \<lparr>status = 500, body = error_body ''Invalid file type''\<rparr>, s)
              else if over_limit env
              then (Inl \<lparr>status = 400, body = error_body ''File too large''\<rparr>, s)
              else (let name = ''file'' @ ''-'' @ uniqueSuffix env
                                 @ path_extname (part_filename file);
                        stored = ''uploads/'' @ name
                    in (Inr (Some \<lparr>originalname = part_filename file,
                                   mimetype = part_type file,
                                   filename = name, path = stored, fsize = part_size file\<rparr>),
                        s\<lparr>uploads := insert stored (uploads s)\<rparr>))))"

subsection \<open>POST /hackrx/upload\<close>

text \<open>
  The \<^verbatim>\<open>catch\<close> block of the handler:
  \<^verbatim>\<open>
    if (req.file && req.file.path && fs.existsSync(req.file.path)) {
      try { fs.unlinkSync(req.file.path); }
      catch (cleanupError) { console.warn(...); }
    }
    res.status(500).json({ error: error.message });
  \<close>
\<close>

definition upload_catch ::
    "upload_env \<Rightarrow> multer_file \<Rightarrow> server \<Rightarrow> event list \<Rightarrow> js_error \<Rightarrow> response \<times> server \<times> event list" where
  "upload_catch env file s evs e =
     (if path file \<noteq> [] \<and> path file \<in> uploads s
      then (case unlinkSync (unlink_fails env) (path file) (uploads s) of
              (ok, d) \<Rightarrow>
                (\<lparr>status = 500, body = error_body (message e)\<rparr>, s\<lparr>uploads := d\<rparr>,
                 evs @ [Unlink (path file) ok]))
      else (\<lparr>status = 500, body = error_body (message e)\<rparr>, s, evs))"

text \<open>The confirmation text: a check mark (U+2705) and \<^verbatim>\<open> PDF uploaded & indexed\<close>.\<close>

definition uploaded_message :: string where
  "uploaded_message = [CHR 0xE2, CHR 0x9C, CHR 0x85] @ '' PDF uploaded & indexed''"

text \<open>
  \<^verbatim>\<open>
  app.post('/hackrx/upload', upload.single('file'), async (req, res) => {
    try {
      if (!req.file) {
        return res.status(400).json({ error: 'No PDF file uploaded' });
      }
      if (req.file.mimetype !== 'application/pdf' &&
          !req.file.originalname.toLowerCase().endsWith('.pdf')) {
        return res.status(400).json({ error: 'Only PDF files are supported' });
      }
      const fileInfo = { filename: ..., originalName: ..., mimetype: ..., size: ..., path: ... };
      const mlResponse = await uploadPDFToMLAPI(fileInfo);
      const pdf_id = mlResponse.pdf_id;
      if (!pdf_id) {
        throw new Error('ML API did not return a pdf_id in response');
      }
      if (pdfCache.has(pdf_id)) { console.log(...); }
      pdfCache.set(pdf_id, { fileInfo: fileInfo, indexedAt: new Date().toISOString(),
                             mlApiResponse: mlResponse, originalFilename: req.file.originalname });
      try { fs.unlinkSync(req.file.path); }
      catch (cleanupError) { console.warn(...); }
      res.json({ pdf_id: pdf_id, message: "... PDF uploaded & indexed" });
    } catch (error) { ... }
  });
  \<close>
\<close>

definition hackrx_upload ::
    "upload_env \<Rightarrow> multer_file option \<Rightarrow> server \<Rightarrow> response \<times> server \<times> event list" where
  "hackrx_upload env req_file s =
     (case req_file of
        None \<Rightarrow> (\<lparr>status = 400, body = error_body ''No PDF file uploaded''\<rparr>, s, [])
      | Some file \<Rightarrow>
          if mimetype file \<noteq> ''application/pdf''
             \<and> \<not> ends_with (toLowerCase (originalname file)) ''.pdf''
          then (\<lparr>status = 400, body = error_body ''Only PDF files are supported''\<rparr>, s, [])
          else
            (let info = \<lparr>fi_filename = filename file, fi_originalName = originalname file,
                        fi_mimetype = mimetype file, fi_size = fsize file, fi_path = path file\<rparr>
             in case uploadPDFToMLAPI info (ml_upload env) of
                  (Inl e, evs) \<Rightarrow> upload_catch env file s evs e
                | (Inr mlResponse, evs) \<Rightarrow>
                    (case get_prop mlResponse ''pdf_id'' of
                       Inl e \<Rightarrow> upload_catch env file s evs e
                     | Inr pdf_id \<Rightarrow>
                         if \<not> truthy_opt pdf_id
                         then upload_catch env file s evs
                                (Error ''ML API did not return a pdf_id in response'')
                         else
                           (case unlinkSync (unlink_fails env) (path file) (uploads s) of
                              (ok, d) \<Rightarrow>
                                (\<lparr>status = 200,
                                  body = JObj [(''pdf_id'', the pdf_id),
                                               (''message'', JStr uploaded_message)]\<rparr>,
                                 s\<lparr>pdfCache :=
                                      Map_set (pdfCache s) (the pdf_id)
                                        \<lparr>fileInfo = info, indexedAt = now env,
                                         mlApiResponse = mlResponse,
                                         originalFilename = originalname file\<rparr>,
                                    uploads := d\<rparr>,
                                 evs @ [Unlink (path file) ok])))))"

text \<open>The route: multer first, then the handler.\<close>

definition post_hackrx_upload ::
    "upload_env \<Rightarrow> file_part option \<Rightarrow> server \<Rightarrow> response \<times> server \<times> event list" where
  "post_hackrx_upload env part s =
     (case multer_single env part s of
        (Inl refused, s') \<Rightarrow> (refused, s', [])
      | (Inr req_file, s') \<Rightarrow> hackrx_upload env req_file s')"

subsection \<open>POST /hackrx/query\<close>

text \<open>
  The two fields of the form are strings when they are sent and \<^verbatim>\<open>undefined\<close>
  (\<open>None\<close>) when they are not.
  \<^verbatim>\<open>
  app.post('/hackrx/query', upload.none(), async (req, res) => {
    try {
      const { pdf_id, question } = req.body;
      if (!pdf_id) {
        return res.status(400).json({ error: 'pdf_id is required' });
      }
      if (!question || !question.trim()) {
        return res.status(400).json({ error: 'question is required' });
      }
      if (!pdfCache.has(pdf_id)) {
        return res.status(404).json({
          error: `PDF with id '${pdf_id}' not found. Please upload the PDF first using /hackrx/upload.`
        });
      }
      const cachedPDF = pdfCache.get(pdf_id);
      const mlResponse = await queryPDFFromMLAPI(pdf_id, question.trim(), cachedPDF);
      let answerText;
      ... (the answer extraction)
      res.json({ answer: { answer: answerText } });
    } catch (error) {
      res.status(500).json({ error: error.message });
    }
  });
  \<close>
\<close>

definition not_found_text :: "string \<Rightarrow> string" where
  "not_found_text pdf_id =
     ''PDF with id '' @ [CHR 0x27] @ pdf_id @ [CHR 0x27] @
     '' not found. Please upload the PDF first using /hackrx/upload.''"

definition falsy_str :: "string option \<Rightarrow> bool" where
  "falsy_str v = (case v of None \<Rightarrow> True | Some s \<Rightarrow> s = [])"

definition hackrx_query ::
    "axios_result \<Rightarrow> string option \<Rightarrow> string option \<Rightarrow> server \<Rightarrow> response \<times> server \<times> event list" where
  "hackrx_query net pdf_id question s =
     (if falsy_str pdf_id
      then (\<lparr>status = 400, body = error_body ''pdf_id is required''\<rparr>, s, [])
      else if falsy_str question \<or> js_trim (the question) = []
      then (\<lparr>status = 400, body = error_body ''question is required''\<rparr>, s, [])
      else if \<not> Map_has (pdfCache s) (JStr (the pdf_id))
      then (\<lparr>status = 404, body = error_body (not_found_text (the pdf_id))\<rparr>, s, [])
      else
        (let cachedPDF = Map_get (pdfCache s) (JStr (the pdf_id))
         in case queryPDFFromMLAPI (the pdf_id) (js_trim (the question)) cachedPDF net of
              (Inl e, evs) \<Rightarrow> (\<lparr>status = 500, body = error_body (message e)\<rparr>, s, evs)
            | (Inr mlResponse, evs) \<Rightarrow>
                (case extract_answer mlResponse of
                   Inl e \<Rightarrow> (\<lparr>status = 500, body = error_body (message e)\<rparr>, s, evs)
                 | Inr answerText \<Rightarrow>
                     (\<lparr>status = 200,
                       body = JObj [(''answer'', JObj [(''answer'', answerText)])]\<rparr>, s, evs))))"

subsection \<open>The routes that do not touch the cache\<close>

text \<open>
  \<^verbatim>\<open>GET /api/health\<close> and \<^verbatim>\<open>POST /api/chat\<close>. The chat handler picks one of four
  canned texts with \<^verbatim>\<open>Math.random\<close>; the pick, the conversation id it would
  generate and the clock come from outside. (\<^verbatim>\<open>GET /api\<close> returns a fixed
  description of the routes and reads no state; it is not modelled.)
\<close>

definition get_health :: "server \<Rightarrow> response \<times> server \<times> event list" where
  "get_health s =
     (\<lparr>status = 200,
       body = JObj [(''status'', JStr ''OK''), (''message'', JStr ''Server is running'')]\<rparr>, s, [])"

record chat_env =
  pick :: nat
  generated_id :: string
  chat_now :: string

definition chat_responses :: "string \<Rightarrow> string list" where
  "chat_responses m =
     [''Thank you for your message: '' @ [CHR 0x22] @ m @ [CHR 0x22] @
        ''. This is a general chat response.'',
      ''I received your message about '' @ [CHR 0x22] @ m @ [CHR 0x22] @
        ''. For document analysis, please upload a PDF file first.'',
      ''Hello! You said: '' @ [CHR 0x22] @ m @ [CHR 0x22] @
        ''. I'' @ [CHR 0x27] @ ''m ready to help with document analysis if you upload a PDF.'',
      ''I understand you'' @ [CHR 0x27] @ ''re asking about '' @ [CHR 0x22] @ m @ [CHR 0x22] @
        ''. Upload a PDF document and I can provide detailed analysis.'']"

definition post_chat ::
    "chat_env \<Rightarrow> json option \<Rightarrow> json option \<Rightarrow> server \<Rightarrow> response \<times> server \<times> event list" where
  "post_chat env msg conversation_id s =
     (if \<not> truthy_opt msg
      then (\<lparr>status = 400, body = error_body ''Message is required''\<rparr>, s, [])
      else (\<lparr>status = 200,
             body = JObj [(''success'', JBool True),
                          (''response'',
                             JStr (chat_responses (to_js_string (the msg)) ! (pick env mod 4))),
                          (''conversation_id'',
                             (if truthy_opt conversation_id then the conversation_id
                              else JStr (generated_id env))),
                          (''timestamp'', JStr (chat_now env))]\<rparr>, s, []))"

subsection \<open>The server as a whole\<close>

datatype request =
    PostUpload upload_env "file_part option"
  | PostQuery axios_result "string option" "string option"
  | PostChat chat_env "json option" "json option"
  | GetHealth

fun handle :: "request \<Rightarrow> server \<Rightarrow> response \<times> server \<times> event list" where
  "handle (PostUpload env part) s = post_hackrx_upload env part s"
| "handle (PostQuery net pdf_id question) s = hackrx_query net pdf_id question s"
| "handle (PostChat env msg conversation_id) s = post_chat env msg conversation_id s"
| "handle GetHealth s = get_health s"

text \<open>The server starts with an empty cache; \<open>run\<close> serves the requests one after
  the other and collects what was done to the outside.\<close>

definition start :: server where
  "start = \<lparr>pdfCache = [], uploads = {}\<rparr>"

fun run :: "request list \<Rightarrow> server \<Rightarrow> server \<times> event list" where
  "run [] s = (s, [])"
| "run (r # rs) s =
     (case handle r s of
        (resp, s', evs) \<Rightarrow> (case run rs s' of (s'', evs') \<Rightarrow> (s'', evs @ evs')))"

section \<open>The client's batch of questions\<close>

text \<open>
  \<^verbatim>\<open>analyzeDocument\<close> of \<^verbatim>\<open>src/services/api.ts\<close> sends the file once and then one
  request per question. The outcomes of its HTTP calls come from outside: \<open>net n\<close> is
  what the \<open>n\<close>-th call of one invocation comes back with, counted from 0. A call that
  is rejected makes \<^verbatim>\<open>await\<close> throw the rejection; the \<^verbatim>\<open>catch\<close> block logs and
  throws it again.
\<close>

datatype client_file = File (file_name: string) (file_type: string) (file_size: nat)

datatype call = CallUpload client_file | CallQuery string string

datatype thrown = Rejected "json option" string | Thrown js_error

datatype questions_arg = One string | Many "string list"

record chat_response =
  cr_success :: bool
  cr_answers :: "json option list"
  cr_timestamp :: string
  cr_file :: client_file
  cr_questions :: "string list"

text \<open>\<^verbatim>\<open>queryResult.answer.answer\<close>; reading a property of \<^verbatim>\<open>undefined\<close> throws too.\<close>

definition answer_of :: "json \<Rightarrow> js_error + json option" where
  "answer_of queryResult =
     (case get_prop queryResult ''answer'' of
        Inl e \<Rightarrow> Inl e
      | Inr None \<Rightarrow>
          Inl (TypeError (''Cannot read properties of undefined (reading '' @ [CHR 0x27] @
                          ''answer'' @ [CHR 0x27] @ '')''))
      | Inr (Some a) \<Rightarrow> get_prop a ''answer'')"

text \<open>One question: the call \<^verbatim>\<open>queryPDFFromHackRX\<close> makes, then the answer read from
  its result.\<close>

definition ask :: "axios_result \<Rightarrow> thrown + json option" where
  "ask r =
     (case r of
        AxiosErr d m \<Rightarrow> Inl (Rejected d m)
      | AxiosOk queryResult \<Rightarrow>
          (case answer_of queryResult of Inl e \<Rightarrow> Inl (Thrown e) | Inr a \<Rightarrow> Inr a))"

text \<open>
  \<^verbatim>\<open>
      for (const question of questionArray) {
        if (question && question.trim()) {
          const queryResult = await this.queryPDFFromHackRX(pdf_id, question.trim());
          answers.push({ answer: queryResult.answer.answer });
        }
      }
  \<close>
  \<open>n\<close> is the number of calls made so far.
\<close>

fun query_loop ::
    "(nat \<Rightarrow> axios_result) \<Rightarrow> nat \<Rightarrow> string \<Rightarrow> string list \<Rightarrow> (thrown + json option list) \<times> call list" where
  "query_loop net n pdf_id [] = (Inr [], [])"
| "query_loop net n pdf_id (question # rest) =
     (if question \<noteq> [] \<and> js_trim question \<noteq> []
      then (case ask (net n) of
              Inl e \<Rightarrow> (Inl e, [CallQuery pdf_id (js_trim question)])
            | Inr a \<Rightarrow>
                (case query_loop net (Suc n) pdf_id rest of
                   (Inl e, calls) \<Rightarrow> (Inl e, CallQuery pdf_id (js_trim question) # calls)
                 | (Inr answers, calls) \<Rightarrow>
                     (Inr (a # answers), CallQuery pdf_id (js_trim question) # calls)))
      else query_loop net n pdf_id rest)"

text \<open>
  \<^verbatim>\<open>
  async analyzeDocument(file: File, questions: string | string[]): Promise<ChatResponse> {
    try {
      const uploadResult = await this.uploadPDFToHackRX(file);
      const pdf_id = uploadResult.pdf_id;
      const questionArray = Array.isArray(questions) ? questions : [questions];
      const answers = [];
      for (const question of questionArray) { ... }
      return { success: true, response: { answers: answers },
               timestamp: new Date().toISOString(),
               file: { originalName: file.name, mimetype: file.type, size: file.size },
               questions: questionArray.filter(q => q && q.trim()) };
    } catch (error) {
      console.error('HackRX analyze document error:', error);
      throw error;
    }
  }
  \<close>
  The form field \<^verbatim>\<open>pdf_id\<close> of a query is the string of whatever the upload
  returned under that name.
\<close>

definition analyzeDocument ::
    "(nat \<Rightarrow> axios_result) \<Rightarrow> string \<Rightarrow> client_file \<Rightarrow> questions_arg
      \<Rightarrow> (thrown + chat_response) \<times> call list" where
  "analyzeDocument net clock file questions =
     (case net 0 of
        AxiosErr d m \<Rightarrow> (Inl (Rejected d m), [CallUpload file])
      | AxiosOk uploadResult \<Rightarrow>
          (case get_prop uploadResult ''pdf_id'' of
             Inl e \<Rightarrow> (Inl (Thrown e), [CallUpload file])
           | Inr pdf_id \<Rightarrow>
               (let questionArray = (case questions of One q \<Rightarrow> [q] | Many qs \<Rightarrow> qs)
                in case query_loop net 1 (to_js_string_opt pdf_id) questionArray of
                     (Inl e, calls) \<Rightarrow> (Inl e, CallUpload file # calls)
                   | (Inr answers, calls) \<Rightarrow>
                       (Inr \<lparr>cr_success = True, cr_answers = answers, cr_timestamp = clock,
                             cr_file = file,
                             cr_questions =
                               filter (\<lambda>q. q \<noteq> [] \<and> js_trim q \<noteq> []) questionArray\<rparr>,
                        CallUpload file # calls))))"

section \<open>Notions of the specification\<close>

text \<open>
  The specification's precedence for the answer, in its own words: the nested field
  \<^verbatim>\<open>answer.answer\<close> if the response has it, else the field \<^verbatim>\<open>answer\<close> if it has
  it, else the field \<^verbatim>\<open>response\<close> if it has it, else the whole response as text.
  What "has" means is the parameter \<open>counts\<close>: \<open>\<lambda>v. True\<close> when a field that is
  present always counts, \<open>truthy\<close> when only a truthy value does.
\<close>

definition has_field :: "(json \<Rightarrow> bool) \<Rightarrow> json option \<Rightarrow> bool" where
  "has_field counts field = (case field of None \<Rightarrow> False | Some v \<Rightarrow> counts v)"

definition spec_normalize :: "(json \<Rightarrow> bool) \<Rightarrow> json \<Rightarrow> json" where
  "spec_normalize counts r =
     (if has_field counts (opt_chain (js_prop r ''answer'') ''answer'')
      then the (opt_chain (js_prop r ''answer'') ''answer'')
      else if has_field counts (js_prop r ''answer'') then the (js_prop r ''answer'')
      else if has_field counts (js_prop r ''response'') then the (js_prop r ''response'')
      else whole_response r)"

text \<open>
  An indexing call that returned success for an identifier: a call to the ML service's
  upload route that came back with a 2xx body carrying a truthy \<^verbatim>\<open>pdf_id\<close>.
  \<open>indexed_ids\<close> lists the identifiers of such calls in a trace.
\<close>

fun indexed_id :: "event \<Rightarrow> json option" where
  "indexed_id (MlUpload info (AxiosOk d)) =
     (if truthy_opt (js_prop d ''pdf_id'') then js_prop d ''pdf_id'' else None)"
| "indexed_id (MlUpload info (AxiosErr d m)) = None"
| "indexed_id (MlQuery pdf_id question r) = None"
| "indexed_id (Unlink p ok) = None"

definition indexed_ids :: "event list \<Rightarrow> json list" where
  "indexed_ids evs = List.map_filter indexed_id evs"

text \<open>The questions of a batch that are asked: those that are not blank, trimmed.\<close>

definition asked :: "string list \<Rightarrow> string list" where
  "asked qs = map js_trim (filter (\<lambda>q. js_trim q \<noteq> []) qs)"

section \<open>Trimming comes to an end\<close>

text \<open>
  The rounds given to \<open>trim_start_fuel\<close> are enough: what \<open>trim_start\<close> returns
  begins with no white space.
\<close>

lemma starts_with_length: "starts_with s w \<Longrightarrow> length w \<le> length s"
  by (induction s w rule: starts_with.induct) auto

lemma space_at_start_le: "space_at_start ws s \<le> length s"
  by (induction ws) (auto dest: starts_with_length)

lemma space_at_start_0:
  "[] \<notin> set ws \<Longrightarrow> space_at_start ws s = 0 \<Longrightarrow> w \<in> set ws \<Longrightarrow> \<not> starts_with s w"
  by (induction ws) (auto split: if_splits)

lemma trim_start_fuel_enough:
  "length s \<le> n \<Longrightarrow> space_at_start ws (trim_start_fuel n ws s) = 0"
proof (induction n arbitrary: s)
  case 0
  then show ?case using space_at_start_le[of ws s] by simp
next
  case (Suc n)
  show ?case
  proof (cases "space_at_start ws s = 0")
    case True
    then show ?thesis by simp
  next
    case False
    with Suc.prems have "length (drop (space_at_start ws s) s) \<le> n" by simp
    from Suc.IH[OF this] False show ?thesis by simp
  qed
qed

lemma trim_start_done: "w \<in> set js_spaces \<Longrightarrow> \<not> starts_with (trim_start s) w"
proof -
  have "[] \<notin> set js_spaces" by (simp add: js_spaces_def)
  moreover have "space_at_start js_spaces (trim_start s) = 0"
    unfolding trim_start_def by (rule trim_start_fuel_enough) simp
  ultimately show "w \<in> set js_spaces \<Longrightarrow> ?thesis" by (rule space_at_start_0)
qed

section \<open>The cache and the trace\<close>

lemma Map_has_keys: "Map_has c k \<longleftrightarrow> is_primitive k \<and> k \<in> set (map fst c)"
  by (induction c) (auto simp: same_value_zero_def)

lemma Map_set_keys: "map fst (Map_set c k v) = (if Map_has c k then map fst c else map fst c @ [k])"
  by (induction c) (auto simp: same_value_zero_def)

lemma keys_Map_set: "set (map fst (Map_set c k v)) = insert k (set (map fst c))"
  unfolding Map_set_keys by (auto simp: Map_has_keys)

lemma Map_get_set_same: "is_primitive k \<Longrightarrow> Map_get (Map_set c k v) k = Some v"
  by (induction c) (auto simp: same_value_zero_def)

lemma Map_get_set_other: "k' \<noteq> k \<Longrightarrow> Map_get (Map_set c k v) k' = Map_get c k'"
  by (induction c) (auto simp: same_value_zero_def)

lemma indexed_ids_Nil: "indexed_ids [] = []"
  by (simp add: indexed_ids_def List.map_filter_def)

lemma indexed_ids_Cons:
  "indexed_ids (e # es) = (case indexed_id e of None \<Rightarrow> indexed_ids es | Some k \<Rightarrow> k # indexed_ids es)"
  by (simp add: indexed_ids_def List.map_filter_def split: option.splits)

lemma indexed_ids_append: "indexed_ids (xs @ ys) = indexed_ids xs @ indexed_ids ys"
  by (simp add: indexed_ids_def List.map_filter_def)

lemmas indexed_ids_simps = indexed_ids_Nil indexed_ids_Cons indexed_ids_append

lemma catch_cache:
  "upload_catch env file s evs e = (resp, s', evs') \<Longrightarrow>
   pdfCache s' = pdfCache s \<and> indexed_ids evs' = indexed_ids evs \<and> status resp = 500"
  by (auto simp: upload_catch_def unlinkSync_def indexed_ids_simps split: if_splits)

lemma upload_keys:
  "hackrx_upload env req_file s = (resp, s', evs) \<Longrightarrow>
   set (map fst (pdfCache s')) = set (map fst (pdfCache s)) \<union> set (indexed_ids evs)"
  unfolding hackrx_upload_def uploadPDFToMLAPI_def Let_def
  by (auto simp: keys_Map_set get_prop_def unlinkSync_def indexed_ids_simps
      simp del: set_map
      split: option.splits if_splits axios_result.splits sum.splits prod.splits dest!: catch_cache)

lemma multer_cache: "multer_single env part s = (r, s') \<Longrightarrow> pdfCache s' = pdfCache s"
  by (auto simp: multer_single_def Let_def split: option.splits if_splits)

lemma post_upload_keys:
  "post_hackrx_upload env part s = (resp, s', evs) \<Longrightarrow>
   set (map fst (pdfCache s')) = set (map fst (pdfCache s)) \<union> set (indexed_ids evs)"
  unfolding post_hackrx_upload_def
  by (auto simp: indexed_ids_Nil simp del: set_map split: prod.splits sum.splits
      dest!: multer_cache dest: upload_keys)

lemma query_unchanged:
  "hackrx_query net pdf_id question s = (resp, s', evs) \<Longrightarrow> s' = s \<and> indexed_ids evs = []"
  unfolding hackrx_query_def queryPDFFromMLAPI_def Let_def
  by (auto simp: indexed_ids_simps split: if_splits prod.splits sum.splits axios_result.splits)

lemma handle_keys:
  "handle r s = (resp, s', evs) \<Longrightarrow>
   set (map fst (pdfCache s')) = set (map fst (pdfCache s)) \<union> set (indexed_ids evs)"
proof (cases r)
  case (PostUpload env part)
  then show "handle r s = (resp, s', evs) \<Longrightarrow> ?thesis" using post_upload_keys by simp
next
  case (PostQuery net pdf_id question)
  then show "handle r s = (resp, s', evs) \<Longrightarrow> ?thesis" using query_unchanged[of net pdf_id question s resp s' evs] by simp
next
  case (PostChat env msg cid)
  then show "handle r s = (resp, s', evs) \<Longrightarrow> ?thesis"
    by (auto simp: post_chat_def indexed_ids_Nil split: if_splits)
next
  case GetHealth
  then show "handle r s = (resp, s', evs) \<Longrightarrow> ?thesis"
    by (auto simp: get_health_def indexed_ids_Nil)
qed

lemma run_keys:
  "run rs s = (s', evs) \<Longrightarrow>
   set (map fst (pdfCache s')) = set (map fst (pdfCache s)) \<union> set (indexed_ids evs)"
proof (induction rs arbitrary: s s' evs)
  case Nil
  then show ?case by (simp add: indexed_ids_Nil)
next
  case (Cons r rs)
  obtain resp s1 evs1 where h: "handle r s = (resp, s1, evs1)" by (metis prod_cases3)
  obtain s2 evs2 where r: "run rs s1 = (s2, evs2)" by (metis surj_pair)
  from Cons.prems h r have e: "s' = s2" "evs = evs1 @ evs2" by simp_all
  from handle_keys[OF h] Cons.IH[OF r] e show ?case
    by (simp add: indexed_ids_append Un_assoc del: set_map)
qed

lemma start_keys: "pdfCache start = []"
  by (simp add: start_def)

text \<open>
  Claim C2. Serving any request adds to the keys of the cache exactly the identifiers
  for which an indexing call of that request returned success, so an upload whose
  indexing failed and every other route leave the cache as it was. Hence, after any
  sequence of requests served from the start, the keys of the cache are exactly the
  identifiers for which an indexing call returned success, and a record is found under
  an identifier if and only if such a call was made for it.
\<close>

theorem cache_holds_exactly_the_indexed:
  "set (map fst (pdfCache (fst (snd (handle r s))))) =
     set (map fst (pdfCache s)) \<union> set (indexed_ids (snd (snd (handle r s))))
   \<and> set (map fst (pdfCache (fst (run rs start)))) = set (indexed_ids (snd (run rs start)))
   \<and> Map_has (pdfCache (fst (run rs start))) (JStr pdf_id)
       = (JStr pdf_id \<in> set (indexed_ids (snd (run rs start))))"
proof -
  obtain resp s1 evs1 where h: "handle r s = (resp, s1, evs1)" by (metis prod_cases3)
  obtain s2 evs2 where r: "run rs start = (s2, evs2)" by (metis surj_pair)
  have a: "set (map fst (pdfCache s2)) = set (indexed_ids evs2)"
    using run_keys[OF r] by (simp add: start_keys del: set_map)
  show ?thesis using handle_keys[OF h] a h r by (simp add: Map_has_keys del: set_map)
qed

section \<open>Questions\<close>

text \<open>
  Claim C3, as the handler has it. A question about an identifier for which no indexing
  call has returned success never reaches the ML service and leaves the server as it
  was. When the identifier is not empty and the question is not blank, the answer is
  status 404 with a text that names the identifier and tells the caller to upload
  first; an empty identifier or a blank question is turned down before that with
  status 400.
\<close>

theorem unknown_identifier_not_found:
  assumes "JStr pdf_id \<notin> set (indexed_ids (snd (run rs start)))"
  shows "hackrx_query net (Some pdf_id) question (fst (run rs start)) =
           (if pdf_id = [] then \<lparr>status = 400, body = error_body ''pdf_id is required''\<rparr>
            else if falsy_str question \<or> js_trim (the question) = []
            then \<lparr>status = 400, body = error_body ''question is required''\<rparr>
            else \<lparr>status = 404,
                  body = error_body (''PDF with id '' @ [CHR 0x27] @ pdf_id @ [CHR 0x27] @
                      '' not found. Please upload the PDF first using /hackrx/upload.'')\<rparr>,
            fst (run rs start), [])"
proof -
  obtain s2 evs2 where r: "run rs start = (s2, evs2)" by (metis surj_pair)
  have "set (map fst (pdfCache s2)) = set (indexed_ids evs2)"
    using run_keys[OF r] by (simp add: start_keys del: set_map)
  with assms r have "\<not> Map_has (pdfCache s2) (JStr pdf_id)"
    by (simp add: Map_has_keys del: set_map)
  with r show ?thesis
    by (simp add: hackrx_query_def falsy_str_def not_found_text_def)
qed

text \<open>After one upload indexed as \<^verbatim>\<open>abc123\<close>, a question about
  \<^verbatim>\<open>does-not-exist\<close>.\<close>

theorem unknown_identifier_not_found_witness:
  "hackrx_query (AxiosOk JNull) (Some ''does-not-exist'') (Some ''What is covered?'')
     (fst (run [PostUpload \<lparr>uniqueSuffix = ''1-2'', over_limit = False,
                   ml_upload = AxiosOk (JObj [(''pdf_id'', JStr ''abc123'')]),
                   now = ''T1'', unlink_fails = False\<rparr>
                 (Some (FilePart ''policy.pdf'' ''application/pdf'' 2048))] start)) =
   (\<lparr>status = 404,
     body = error_body (''PDF with id '' @ [CHR 0x27] @ ''does-not-exist'' @ [CHR 0x27] @
                      '' not found. Please upload the PDF first using /hackrx/upload.'')\<rparr>,
    fst (run [PostUpload \<lparr>uniqueSuffix = ''1-2'', over_limit = False,
                   ml_upload = AxiosOk (JObj [(''pdf_id'', JStr ''abc123'')]),
                   now = ''T1'', unlink_fails = False\<rparr>
                 (Some (FilePart ''policy.pdf'' ''application/pdf'' 2048))] start), [])"
proof -
  have h: "JStr ''does-not-exist'' \<notin> set (indexed_ids (snd (run
     [PostUpload \<lparr>uniqueSuffix = ''1-2'', over_limit = False,
                   ml_upload = AxiosOk (JObj [(''pdf_id'', JStr ''abc123'')]),
                   now = ''T1'', unlink_fails = False\<rparr>
                 (Some (FilePart ''policy.pdf'' ''application/pdf'' 2048))] start)))"
    by code_simp
  have q: "\<not> (falsy_str (Some ''What is covered?'') \<or> js_trim (the (Some ''What is covered?'')) = [])"
    by code_simp
  show ?thesis
    using unknown_identifier_not_found [OF h, of "AxiosOk JNull" "Some ''What is covered?''"] q
    by simp
qed

text \<open>With an empty question the same identifier gives status 400, not 404.\<close>

theorem empty_question_is_not_not_found:
  "hackrx_query (AxiosOk JNull) (Some ''does-not-exist'') (Some []) start =
     (\<lparr>status = 400, body = error_body ''question is required''\<rparr>, start, [])"
  by (simp add: hackrx_query_def falsy_str_def)

text \<open>
  Claim C7, as the handler has it. When the identifier is missing or empty, or the
  question is missing, empty or blank, the request is answered with status 400 whatever
  the cache holds, and the ML service is not called. The identifier is tested as it
  was sent; only the question is trimmed.
\<close>

theorem query_validation:
  assumes "falsy_str pdf_id \<or> falsy_str question \<or> js_trim (the question) = []"
  shows "hackrx_query net pdf_id question s =
           (\<lparr>status = 400,
             body = error_body (if falsy_str pdf_id then ''pdf_id is required''
                                else ''question is required'')\<rparr>, s, [])"
  using assms by (auto simp: hackrx_query_def)

theorem query_validation_witness:
  "hackrx_query (AxiosOk JNull) (Some ''abc123'') (Some ''  '') start =
     (\<lparr>status = 400, body = error_body ''question is required''\<rparr>, start, [])
   \<and> hackrx_query (AxiosOk JNull) None (Some ''What is covered?'') start =
     (\<lparr>status = 400, body = error_body ''pdf_id is required''\<rparr>, start, [])"
  using query_validation [of "Some ''abc123''" "Some ''  ''" "AxiosOk JNull" start]
        query_validation [of None "Some ''What is covered?''" "AxiosOk JNull" start]
  by (simp add: falsy_str_def js_trim_def trim_start_def trim_end_def js_spaces_def)

text \<open>An identifier of one space is empty once trimmed, yet it passes the validation
  and is looked up in the cache.\<close>

theorem blank_identifier_passes_validation:
  "js_trim '' '' = [] \<and>
   hackrx_query (AxiosOk JNull) (Some '' '') (Some ''What is covered?'') start =
     (\<lparr>status = 404, body = error_body (not_found_text '' '')\<rparr>, start, [])"
  by (simp add: hackrx_query_def falsy_str_def js_trim_def trim_start_def trim_end_def js_spaces_def start_def)

section \<open>The answer extraction\<close>

lemma js_prop_truthy: "truthy_opt (js_prop a k) \<Longrightarrow> truthy a"
  by (cases a) auto

lemma has_field_truthy: "has_field truthy f = truthy_opt f"
  by (cases f) (simp_all add: has_field_def)

lemma extract_answer_truthy:
  "r \<noteq> JNull \<Longrightarrow> extract_answer r = Inr (spec_normalize truthy r)"
  by (cases "js_prop r ''answer''")
     (auto simp: extract_answer_def get_prop_def spec_normalize_def has_field_truthy
           dest: js_prop_truthy)

text \<open>
  Claim C1, as the handler has it. For every response other than \<^verbatim>\<open>null\<close> the
  answer follows the precedence \<^verbatim>\<open>answer.answer\<close>, \<^verbatim>\<open>answer\<close>, \<^verbatim>\<open>response\<close>,
  whole response as text, where a field counts only when its value is truthy. For a
  text \<open>X\<close> that is not empty, the three shapes \<^verbatim>\<open>{answer:{answer:X}}\<close>,
  \<^verbatim>\<open>{answer:X}\<close> and \<^verbatim>\<open>{response:X}\<close> each give exactly \<open>X\<close>.
\<close>

theorem normalizer_precedence:
  assumes "r \<noteq> JNull" and "X \<noteq> []"
  shows "extract_answer r = Inr (spec_normalize truthy r)
       \<and> extract_answer (JObj [(''answer'', JObj [(''answer'', JStr X)])]) = Inr (JStr X)
       \<and> extract_answer (JObj [(''answer'', JStr X)]) = Inr (JStr X)
       \<and> extract_answer (JObj [(''response'', JStr X)]) = Inr (JStr X)"
  using assms
  by (simp add: extract_answer_truthy spec_normalize_def has_field_truthy)

theorem normalizer_precedence_witness:
  "extract_answer (JObj [(''answer'', JObj [(''answer'', JStr ''Coverage X'')]), (''response'', JStr ''other'')])
     = Inr (JStr ''Coverage X'')
   \<and> extract_answer (JObj [(''answer'', JStr ''X'')]) = Inr (JStr ''X'')
   \<and> extract_answer (JObj [(''response'', JStr ''X'')]) = Inr (JStr ''X'')"
  using normalizer_precedence
    [of "JObj [(''answer'', JObj [(''answer'', JStr ''Coverage X'')]), (''response'', JStr ''other'')]" "''X''"]
  by (simp add: spec_normalize_def has_field_def)

text \<open>
  With a field counting as soon as it is present, \<^verbatim>\<open>{answer:""}\<close> would give the
  empty text; the handler gives the serialized response.
\<close>

theorem present_but_empty_answer_is_not_used:
  "extract_answer (JObj [(''answer'', JStr [])])
     = Inr (JStr ([CHR ''{'', CHR 0x22] @ ''answer'' @ [CHR 0x22, CHR '':'', CHR 0x22, CHR 0x22, CHR ''}'']))
   \<and> spec_normalize (\<lambda>v. True) (JObj [(''answer'', JStr [])]) = JStr []"
  by (simp add: extract_answer_def get_prop_def whole_response_def quote_def escape_char_def
      spec_normalize_def has_field_def)

text \<open>
  Claim C10. When the field \<^verbatim>\<open>answer\<close> is present with a falsy value, the first two
  rules are skipped: the answer is the field \<^verbatim>\<open>response\<close> when that is truthy and the
  serialized response otherwise, and it is never the empty text.
\<close>

theorem falsy_answer_is_skipped:
  assumes "js_prop r ''answer'' = Some a" and "\<not> truthy a"
  shows "extract_answer r =
           Inr (if truthy_opt (js_prop r ''response'') then the (js_prop r ''response'')
                else JStr (JSON_stringify r))
       \<and> extract_answer r \<noteq> Inr (JStr [])"
proof -
  from assms(1) obtain kvs where r: "r = JObj kvs" by (cases r) auto
  from assms(2) have na: "\<not> truthy_opt (opt_chain (Some a) ''answer'')"
    by (cases a) auto
  have e: "extract_answer r =
           Inr (if truthy_opt (js_prop r ''response'') then the (js_prop r ''response'')
                else JStr (JSON_stringify r))"
    using assms r na by (simp add: extract_answer_def get_prop_def whole_response_def)
  have "truthy_opt (js_prop r ''response'') \<Longrightarrow> the (js_prop r ''response'') \<noteq> JStr []"
    by (cases "js_prop r ''response''") auto
  with e r show ?thesis by auto
qed

theorem falsy_answer_is_skipped_witness:
  "extract_answer (JObj [(''answer'', JStr [])])
     = Inr (JStr (JSON_stringify (JObj [(''answer'', JStr [])])))
   \<and> JSON_stringify (JObj [(''answer'', JStr [])])
       = [CHR ''{'', CHR 0x22] @ ''answer'' @ [CHR 0x22, CHR '':'', CHR 0x22, CHR 0x22, CHR ''}'']
   \<and> extract_answer (JObj [(''answer'', JStr []), (''response'', JStr ''R'')]) = Inr (JStr ''R'')
   \<and> extract_answer (JObj [(''answer'', JStr [])]) \<noteq> Inr (JStr [])"
  using falsy_answer_is_skipped [of "JObj [(''answer'', JStr [])]" "JStr []"]
        falsy_answer_is_skipped [of "JObj [(''answer'', JStr []), (''response'', JStr ''R'')]" "JStr []"]
  by (simp add: quote_def escape_char_def)

section \<open>Uploads\<close>








text \<open>
  Claim C4. When the indexing call came back with a 2xx response whose body has no
  \<^verbatim>\<open>pdf_id\<close>, the upload fails with status 500 and the cache is left as it was.
\<close>

theorem missing_identifier_is_index_error:
  assumes "MlUpload info (AxiosOk d) \<in> set (snd (snd (hackrx_upload env req_file s)))"
      and "js_prop d ''pdf_id'' = None"
  shows "status (fst (hackrx_upload env req_file s)) = 500
       \<and> pdfCache (fst (snd (hackrx_upload env req_file s))) = pdfCache s
       \<and> body (fst (hackrx_upload env req_file s)) =
           error_body (if d = JNull
                       then ''Cannot read properties of null (reading '' @ [CHR 0x27] @ ''pdf_id'' @ [CHR 0x27] @ '')''
                       else ''ML API did not return a pdf_id in response'')"
  using assms
  unfolding hackrx_upload_def uploadPDFToMLAPI_def upload_catch_def Let_def
  by (auto simp: get_prop_def unlinkSync_def
      split: option.splits if_splits axios_result.splits)

theorem missing_identifier_is_index_error_witness:
  "status (fst (hackrx_upload
      \<lparr>uniqueSuffix = ''1-2'', over_limit = False,
        ml_upload = AxiosOk (JObj [(''message'', JStr ''indexed'')]),
        now = ''T1'', unlink_fails = False\<rparr>
      (Some \<lparr>originalname = ''policy.pdf'', mimetype = ''application/pdf'',
             filename = ''file-1-2.pdf'', path = ''uploads/file-1-2.pdf'', fsize = 2048\<rparr>)
      \<lparr>pdfCache = [], uploads = {''uploads/file-1-2.pdf''}\<rparr>)) = 500
   \<and> pdfCache (fst (snd (hackrx_upload
      \<lparr>uniqueSuffix = ''1-2'', over_limit = False,
        ml_upload = AxiosOk (JObj [(''message'', JStr ''indexed'')]),
        now = ''T1'', unlink_fails = False\<rparr>
      (Some \<lparr>originalname = ''policy.pdf'', mimetype = ''application/pdf'',
             filename = ''file-1-2.pdf'', path = ''uploads/file-1-2.pdf'', fsize = 2048\<rparr>)
      \<lparr>pdfCache = [], uploads = {''uploads/file-1-2.pdf''}\<rparr>))) = []
   \<and> body (fst (hackrx_upload
      \<lparr>uniqueSuffix = ''1-2'', over_limit = False,
        ml_upload = AxiosOk (JObj [(''message'', JStr ''indexed'')]),
        now = ''T1'', unlink_fails = False\<rparr>
      (Some \<lparr>originalname = ''policy.pdf'', mimetype = ''application/pdf'',
             filename = ''file-1-2.pdf'', path = ''uploads/file-1-2.pdf'', fsize = 2048\<rparr>)
      \<lparr>pdfCache = [], uploads = {''uploads/file-1-2.pdf''}\<rparr>))
     = error_body ''ML API did not return a pdf_id in response''"
proof -
  let ?E = "\<lparr>uniqueSuffix = ''1-2'', over_limit = False,
        ml_upload = AxiosOk (JObj [(''message'', JStr ''indexed'')]),
        now = ''T1'', unlink_fails = False\<rparr>"
  let ?F = "\<lparr>originalname = ''policy.pdf'', mimetype = ''application/pdf'',
             filename = ''file-1-2.pdf'', path = ''uploads/file-1-2.pdf'', fsize = 2048\<rparr>"
  let ?S = "\<lparr>pdfCache = [], uploads = {''uploads/file-1-2.pdf''}\<rparr>"
  have h1: "MlUpload \<lparr>fi_filename = ''file-1-2.pdf'', fi_originalName = ''policy.pdf'',
                      fi_mimetype = ''application/pdf'', fi_size = 2048,
                      fi_path = ''uploads/file-1-2.pdf''\<rparr>
              (AxiosOk (JObj [(''message'', JStr ''indexed'')]))
            \<in> set (snd (snd (hackrx_upload ?E (Some ?F) ?S)))"
    by code_simp
  have h2: "js_prop (JObj [(''message'', JStr ''indexed'')]) ''pdf_id'' = None"
    by simp
  show ?thesis
    using missing_identifier_is_index_error [OF h1 h2] by simp
qed

lemma upload_success:
  assumes "mimetype f = ''application/pdf'' \<or> ends_with (toLowerCase (originalname f)) ''.pdf''"
      and "path f \<noteq> []"
      and "ml_upload env = AxiosOk d"
      and "js_prop d ''pdf_id'' = Some k"
      and "truthy k"
  shows "hackrx_upload env (Some f) s =
          (\<lparr>status = 200, body = JObj [(''pdf_id'', k), (''message'', JStr uploaded_message)]\<rparr>,
           s\<lparr>pdfCache := Map_set (pdfCache s) k
                 \<lparr>fileInfo = \<lparr>fi_filename = filename f, fi_originalName = originalname f,
                        fi_mimetype = mimetype f, fi_size = fsize f, fi_path = path f\<rparr>,
                  indexedAt = now env, mlApiResponse = d, originalFilename = originalname f\<rparr>,
             uploads := snd (unlinkSync (unlink_fails env) (path f) (uploads s))\<rparr>,
           [MlUpload \<lparr>fi_filename = filename f, fi_originalName = originalname f,
                        fi_mimetype = mimetype f, fi_size = fsize f, fi_path = path f\<rparr> (AxiosOk d),
            Unlink (path f) (fst (unlinkSync (unlink_fails env) (path f) (uploads s)))])"
proof -
  from assms(4) have "d \<noteq> JNull" by auto
  with assms show ?thesis
    unfolding hackrx_upload_def uploadPDFToMLAPI_def Let_def
    by (auto simp: get_prop_def split: prod.splits)
qed

text \<open>
  Claim C5. When an upload succeeds with an identifier the cache already holds, the
  request is answered with status 200 as any other successful upload, the record under
  the identifier is the new one in all its fields, and the cache has the same keys and
  the same records under the other keys as before.
\<close>

theorem reupload_overwrites:
  assumes "mimetype f = ''application/pdf'' \<or> ends_with (toLowerCase (originalname f)) ''.pdf''"
      and "path f \<noteq> []"
      and "ml_upload env = AxiosOk d"
      and "js_prop d ''pdf_id'' = Some k"
      and "truthy k"
      and "Map_has (pdfCache s) k"
  shows "fst (hackrx_upload env (Some f) s) =
           \<lparr>status = 200, body = JObj [(''pdf_id'', k), (''message'', JStr uploaded_message)]\<rparr>
       \<and> Map_get (pdfCache (fst (snd (hackrx_upload env (Some f) s)))) k =
           Some \<lparr>fileInfo = \<lparr>fi_filename = filename f, fi_originalName = originalname f,
                               fi_mimetype = mimetype f, fi_size = fsize f,
                               fi_path = path f\<rparr>,
                  indexedAt = now env, mlApiResponse = d, originalFilename = originalname f\<rparr>
       \<and> map fst (pdfCache (fst (snd (hackrx_upload env (Some f) s)))) = map fst (pdfCache s)
       \<and> (\<forall>k'. k' \<noteq> k \<longrightarrow>
             Map_get (pdfCache (fst (snd (hackrx_upload env (Some f) s)))) k' = Map_get (pdfCache s) k')"
proof -
  from assms(6) have "is_primitive k" by (simp add: Map_has_keys)
  then show ?thesis
    using assms(6)
    by (simp add: upload_success[OF assms(1-5)] Map_get_set_same Map_get_set_other Map_set_keys)
qed

theorem reupload_overwrites_witness:
  "Map_get (pdfCache (fst (snd (hackrx_upload
      \<lparr>uniqueSuffix = ''3-4'', over_limit = False,
        ml_upload = AxiosOk (JObj [(''pdf_id'', JStr ''abc123'')]),
        now = ''T2'', unlink_fails = False\<rparr>
      (Some \<lparr>originalname = ''renewed.pdf'', mimetype = ''application/pdf'',
             filename = ''file-3-4.pdf'', path = ''uploads/file-3-4.pdf'', fsize = 4096\<rparr>)
      \<lparr>pdfCache =
         [(JStr ''abc123'',
           \<lparr>fileInfo = \<lparr>fi_filename = ''file-1-2.pdf'', fi_originalName = ''policy.pdf'',
                         fi_mimetype = ''application/pdf'', fi_size = 2048,
                         fi_path = ''uploads/file-1-2.pdf''\<rparr>,
             indexedAt = ''T1'', mlApiResponse = JObj [(''pdf_id'', JStr ''abc123''), (''pages'', JNum 3)],
             originalFilename = ''policy.pdf''\<rparr>)],
        uploads = {''uploads/file-3-4.pdf''}\<rparr>)))) (JStr ''abc123'')
   = Some \<lparr>fileInfo = \<lparr>fi_filename = ''file-3-4.pdf'', fi_originalName = ''renewed.pdf'',
                         fi_mimetype = ''application/pdf'', fi_size = 4096,
                         fi_path = ''uploads/file-3-4.pdf''\<rparr>,
             indexedAt = ''T2'', mlApiResponse = JObj [(''pdf_id'', JStr ''abc123'')],
             originalFilename = ''renewed.pdf''\<rparr>"
proof -
  let ?E = "\<lparr>uniqueSuffix = ''3-4'', over_limit = False,
        ml_upload = AxiosOk (JObj [(''pdf_id'', JStr ''abc123'')]),
        now = ''T2'', unlink_fails = False\<rparr>"
  let ?F = "\<lparr>originalname = ''renewed.pdf'', mimetype = ''application/pdf'',
             filename = ''file-3-4.pdf'', path = ''uploads/file-3-4.pdf'', fsize = 4096\<rparr>"
  let ?S = "\<lparr>pdfCache =
         [(JStr ''abc123'',
           \<lparr>fileInfo = \<lparr>fi_filename = ''file-1-2.pdf'', fi_originalName = ''policy.pdf'',
                         fi_mimetype = ''application/pdf'', fi_size = 2048,
                         fi_path = ''uploads/file-1-2.pdf''\<rparr>,
             indexedAt = ''T1'', mlApiResponse = JObj [(''pdf_id'', JStr ''abc123''), (''pages'', JNum 3)],
             originalFilename = ''policy.pdf''\<rparr>)],
        uploads = {''uploads/file-3-4.pdf''}\<rparr>"
  have h1: "mimetype ?F = ''application/pdf'' \<or> ends_with (toLowerCase (originalname ?F)) ''.pdf''"
    by simp
  have h2: "path ?F \<noteq> []" by simp
  have h3: "ml_upload ?E = AxiosOk (JObj [(''pdf_id'', JStr ''abc123'')])" by simp
  have h4: "js_prop (JObj [(''pdf_id'', JStr ''abc123'')]) ''pdf_id'' = Some (JStr ''abc123'')" by simp
  have h5: "truthy (JStr ''abc123'')" by simp
  have h6: "Map_has (pdfCache ?S) (JStr ''abc123'')" by (simp add: same_value_zero_def)
  show ?thesis
    using reupload_overwrites [OF h1 h2 h3 h4 h5 h6] by simp
qed

text \<open>
  The handler after a failed indexing call: status 500 with the ML service's own
  \<^verbatim>\<open>error\<close> text when it sent one and the transport's message otherwise, the cache
  untouched.
\<close>

lemma index_error_propagates:
  assumes "mimetype f = ''application/pdf'' \<or> ends_with (toLowerCase (originalname f)) ''.pdf''"
      and "path f \<noteq> []"
      and "ml_upload env = AxiosErr d m"
  shows "fst (hackrx_upload env (Some f) s) =
           \<lparr>status = 500,
             body = error_body (''ML API upload failed: '' @
                      (if truthy_opt (opt_chain d ''error'')
                       then to_js_string (the (opt_chain d ''error'')) else m))\<rparr>
       \<and> pdfCache (fst (snd (hackrx_upload env (Some f) s))) = pdfCache s"
  using assms
  unfolding hackrx_upload_def uploadPDFToMLAPI_def upload_catch_def Let_def
  by (auto simp: failure_text_def unlinkSync_def)

text \<open>
  Once the check for a PDF has passed, every way out of the handler deletes the stored
  file unless the operating system refuses, and a refusal does not change the response.
\<close>

lemma staged_file_released_after_indexing:
  assumes "mimetype f = ''application/pdf'' \<or> ends_with (toLowerCase (originalname f)) ''.pdf''"
      and "path f \<noteq> []"
  shows "uploads (fst (snd (hackrx_upload env (Some f) s))) =
           (if unlink_fails env then uploads s else uploads s - {path f})
       \<and> fst (hackrx_upload (env\<lparr>unlink_fails := b\<rparr>) (Some f) s) = fst (hackrx_upload env (Some f) s)"
  using assms
  unfolding hackrx_upload_def uploadPDFToMLAPI_def upload_catch_def Let_def
  by (auto simp: unlinkSync_def get_prop_def split: axios_result.splits option.splits)

text \<open>
  Claim C9 at the upload of \<^verbatim>\<open>notes.txt\<close> of declared type \<^verbatim>\<open>text/plain\<close>: multer
  accepts and stores the file, the handler answers with status 400 and returns, and the
  stored file is still in \<^verbatim>\<open>uploads\<close>.
\<close>

theorem rejected_upload_keeps_staged_file:
  "post_hackrx_upload
      \<lparr>uniqueSuffix = ''1-2'', over_limit = False,
        ml_upload = AxiosOk (JObj [(''pdf_id'', JStr ''abc123'')]),
        now = ''T1'', unlink_fails = False\<rparr>
      (Some (FilePart ''notes.txt'' ''text/plain'' 2048)) start
   = (\<lparr>status = 400, body = error_body ''Only PDF files are supported''\<rparr>,
      \<lparr>pdfCache = [], uploads = {''uploads/file-1-2.txt''}\<rparr>, [])"
  by code_simp

section \<open>The batch of questions\<close>

lemma js_trim_Nil: "js_trim [] = []"
  by (simp add: js_trim_def trim_start_def trim_end_def)

lemma nonblank_iff: "(q \<noteq> [] \<and> js_trim q \<noteq> []) = (js_trim q \<noteq> [])"
  by (auto simp: js_trim_Nil)

lemma asked_Cons:
  "asked (q # qs) = (if js_trim q \<noteq> [] then js_trim q # asked qs else asked qs)"
  by (simp add: asked_def)

lemma asked_Nil: "asked [] = []"
  by (simp add: asked_def)

lemma query_loop_Cons:
  "query_loop net n pdf_id (q # qs) =
     (if js_trim q \<noteq> []
      then (case ask (net n) of
              Inl e \<Rightarrow> (Inl e, [CallQuery pdf_id (js_trim q)])
            | Inr a \<Rightarrow>
                (case query_loop net (Suc n) pdf_id qs of
                   (Inl e, calls) \<Rightarrow> (Inl e, CallQuery pdf_id (js_trim q) # calls)
                 | (Inr answers, calls) \<Rightarrow>
                     (Inr (a # answers), CallQuery pdf_id (js_trim q) # calls)))
      else query_loop net n pdf_id qs)"
  by (auto simp: js_trim_Nil)

lemma query_loop_closed:
  "query_loop net n pdf_id qs =
     (let outs = map (\<lambda>i. ask (net (n + i))) [0..<length (asked qs)];
          k = length (takeWhile (\<lambda>out. \<not> isl out) outs)
      in (if k = length (asked qs) then Inr (map projr outs) else Inl (projl (outs ! k)),
          map (CallQuery pdf_id) (take (Suc k) (asked qs))))"
proof (induction qs arbitrary: n)
  case Nil
  then show ?case by (simp add: asked_Nil)
next
  case (Cons q qs)
  show ?case
  proof (cases "js_trim q = []")
    case True
    then show ?thesis using Cons.IH[of n]
      by (simp add: asked_Cons query_loop_Cons del: query_loop.simps)
  next
    case False
    show ?thesis
    proof (cases "ask (net n)")
      case (Inl e)
      with False show ?thesis
        by (simp add: asked_Cons query_loop_Cons map_upt_Suc Let_def del: query_loop.simps upt_Suc)
    next
      case (Inr a)
      with False show ?thesis using Cons.IH[of "Suc n"]
        by (simp add: asked_Cons query_loop_Cons map_upt_Suc Let_def
            del: query_loop.simps upt_Suc split: sum.splits)
    qed
  qed
qed

text \<open>
  Claim C6. \<open>analyzeDocument\<close> uploads the file once, as its first call. When the upload
  fails nothing else is sent. Otherwise, with \<open>k\<close> the number of questions answered
  before the first failure, the calls after the upload are the queries for the first
  \<open>k + 1\<close> questions that are not blank, trimmed and in their order, so no question
  after a failed one is sent; the result is all the answers when no query failed, and
  the error of the failed query, without any answer, when one did.
\<close>

theorem batch_is_sequential_and_all_or_nothing:
  "(net 0 = AxiosErr d m \<longrightarrow>
      analyzeDocument net clock f questions = (Inl (Rejected d m), [CallUpload f]))
   \<and> (net 0 = AxiosOk JNull \<longrightarrow>
      fst (analyzeDocument net clock f questions) \<noteq> Inr r
      \<and> snd (analyzeDocument net clock f questions) = [CallUpload f])
   \<and> (net 0 = AxiosOk u \<and> u \<noteq> JNull \<longrightarrow>
      analyzeDocument net clock f questions =
        (let qs = (case questions of One q \<Rightarrow> [q] | Many qs \<Rightarrow> qs);
             pdf_id = to_js_string_opt (js_prop u ''pdf_id'');
             outs = map (\<lambda>i. ask (net (Suc i))) [0..<length (asked qs)];
             k = length (takeWhile (\<lambda>out. \<not> isl out) outs)
         in (if k = length (asked qs)
             then Inr \<lparr>cr_success = True, cr_answers = map projr outs, cr_timestamp = clock,
                       cr_file = f, cr_questions = filter (\<lambda>q. js_trim q \<noteq> []) qs\<rparr>
             else Inl (projl (outs ! k)),
             CallUpload f # map (CallQuery pdf_id) (take (Suc k) (asked qs)))))"
proof -
  show ?thesis
    by (auto simp: analyzeDocument_def get_prop_def query_loop_closed Let_def nonblank_iff
        split: questions_arg.splits)
qed

text \<open>
  Four questions, one of them blank, where the second query fails; three questions, one
  of them empty, where every query is answered; and an upload that fails.
\<close>

theorem batch_is_sequential_and_all_or_nothing_witness:
  "analyzeDocument
     (\<lambda>n. if n = 0 then AxiosOk (JObj [(''pdf_id'', JStr ''abc123'')])
          else if n = 1 then AxiosOk (JObj [(''answer'', JObj [(''answer'', JStr ''A1'')])])
          else AxiosErr None ''Request failed with status code 500'')
     ''T'' (File ''policy.pdf'' ''application/pdf'' 2048) (Many [''Q1'', ''  '', ''Q2'', ''Q3''])
   = (Inl (Rejected None ''Request failed with status code 500''),
      [CallUpload (File ''policy.pdf'' ''application/pdf'' 2048),
       CallQuery ''abc123'' ''Q1'', CallQuery ''abc123'' ''Q2''])
   \<and> analyzeDocument
     (\<lambda>n. if n = 0 then AxiosOk (JObj [(''pdf_id'', JStr ''abc123'')])
          else AxiosOk (JObj [(''answer'', JObj [(''answer'', JStr ''A'')])]))
     ''T'' (File ''policy.pdf'' ''application/pdf'' 2048) (Many ['' Q1 '', [], ''Q2''])
   = (Inr \<lparr>cr_success = True, cr_answers = [Some (JStr ''A''), Some (JStr ''A'')],
           cr_timestamp = ''T'', cr_file = File ''policy.pdf'' ''application/pdf'' 2048,
           cr_questions = ['' Q1 '', ''Q2'']\<rparr>,
      [CallUpload (File ''policy.pdf'' ''application/pdf'' 2048),
       CallQuery ''abc123'' ''Q1'', CallQuery ''abc123'' ''Q2''])
   \<and> analyzeDocument (\<lambda>n. AxiosErr None ''Network Error'')
     ''T'' (File ''policy.pdf'' ''application/pdf'' 2048) (Many [''Q1'', ''Q2''])
   = (Inl (Rejected None ''Network Error''),
      [CallUpload (File ''policy.pdf'' ''application/pdf'' 2048)])"
proof -
  let ?F = "File ''policy.pdf'' ''application/pdf'' 2048"
  let ?U = "JObj [(''pdf_id'', JStr ''abc123'')]"
  let ?net = "\<lambda>n::nat. if n = 0 then AxiosOk ?U
          else if n = 1 then AxiosOk (JObj [(''answer'', JObj [(''answer'', JStr ''A1'')])])
          else AxiosErr None ''Request failed with status code 500''"
  let ?ok = "\<lambda>n::nat. if n = 0 then AxiosOk ?U
          else AxiosOk (JObj [(''answer'', JObj [(''answer'', JStr ''A'')])])"
  let ?down = "\<lambda>n::nat. AxiosErr None ''Network Error''"
  have h: "?net 0 = AxiosOk ?U \<and> ?U \<noteq> JNull" by simp
  have k: "?ok 0 = AxiosOk ?U \<and> ?U \<noteq> JNull" by simp
  have d: "?down 0 = AxiosErr None ''Network Error''" by simp
  note t1 = batch_is_sequential_and_all_or_nothing
      [where net = ?net and u = ?U and clock = "''T''" and f = ?F
         and questions = "Many [''Q1'', ''  '', ''Q2'', ''Q3'']",
       THEN conjunct2, THEN conjunct2, THEN mp, OF h]
  note t2 = batch_is_sequential_and_all_or_nothing
      [where net = ?ok and u = ?U and clock = "''T''" and f = ?F
         and questions = "Many ['' Q1 '', [], ''Q2'']",
       THEN conjunct2, THEN conjunct2, THEN mp, OF k]
  note t3 = batch_is_sequential_and_all_or_nothing
      [where net = ?down and d = None and m = "''Network Error''" and clock = "''T''" and f = ?F
         and questions = "Many [''Q1'', ''Q2'']",
       THEN conjunct1, THEN mp, OF d]
  show ?thesis
    unfolding t1 t2 t3 by code_simp
qed

end
